theory Spec2Isabelle
  imports Complex_Main
begin

section \<open>The video resource of \<^verbatim>\<open>resources/video.py\<close>\<close>

text \<open>
  The module defines one Flask-RESTful resource, \<^verbatim>\<open>Video\<close>, with the handlers
  \<^verbatim>\<open>get\<close>, \<open>put\<close>, \<open>patch\<close> and \<open>delete\<close> over one table of video rows, two request
  parsers and two process-wide Prometheus metrics. The handlers are embedded as functions
  from the request and the current state to the response and the next state. An
  \<^verbatim>\<open>abort(status, message=...)\<close> is the left injection of the response type.

  The module's import line names the metrics library \<^verbatim>\<open>prometheus_cliente\<close>; the
  counter and the histogram are modelled as \<^verbatim>\<open>Counter\<close> and \<^verbatim>\<open>Histogram\<close> of
  \<^verbatim>\<open>prometheus_client\<close>. Log lines are not part of the state.
\<close>

subsection \<open>Rows, JSON bodies and responses\<close>

text \<open>
  Modelled from the spec: \<^verbatim>\<open>VideoModel\<close> (\<^verbatim>\<open>models/video.py\<close> is not among the sources).
  A row has the integer primary key \<open>id\<close> and the columns \<open>name\<close>, \<open>views\<close>, \<open>likes\<close>.
  The field \<open>id\<close> is written \<open>id'\<close>, since \<open>id\<close> is the identity function of HOL.
\<close>

record video =
  id' :: int
  name :: string
  views :: int
  likes :: int

datatype jval = JInt int | JStr string

type_synonym json = "(string \<times> jval) list"

text \<open>
  \<^verbatim>\<open>abort(code, message=m)\<close>: the message is a text for the 404 and the 409, and the
  dictionary \<^verbatim>\<open>{argument: help}\<close> for an argument the request parser rejects.
\<close>

datatype message = Text string | Field string string

datatype abort = Abort nat message

type_synonym response = "abort + json \<times> nat"

text \<open>\<^verbatim>\<open>resource_fields\<close> with \<^verbatim>\<open>marshal_with\<close>: the four fields, in this order.\<close>

definition resource_fields :: "video \<Rightarrow> json" where
  "resource_fields v =
     [(''id'', JInt (id' v)), (''name'', JStr (name v)),
      (''views'', JInt (views v)), (''likes'', JInt (likes v))]"

text \<open>The decimal text of an integer, as an f-string prints \<^verbatim>\<open>{video_id}\<close>.\<close>

fun str_nat :: "nat \<Rightarrow> string" where
  "str_nat n =
     (if n < 10 then [''0123456789'' ! n]
      else str_nat (n div 10) @ [''0123456789'' ! (n mod 10)])"

declare str_nat.simps [simp del]

definition py_str :: "int \<Rightarrow> string" where
  "py_str i = (if i < 0 then CHR ''-'' # str_nat (nat (- i)) else str_nat (nat i))"

subsection \<open>Request bodies and the two parsers\<close>

text \<open>
  What the request carries for one argument: nothing, a value that the argument's
  \<^verbatim>\<open>type\<close> converts (to the value given here), or a value on which the conversion
  raises (\<^verbatim>\<open>int("abc")\<close>). A JSON \<^verbatim>\<open>null\<close> is not a case of its own: an optional
  argument parses it to \<^verbatim>\<open>None\<close> exactly as it parses a missing one, and what a
  \<^verbatim>\<open>null\<close> for a required argument leads to depends on the column constraints of
  \<^verbatim>\<open>VideoModel\<close>.
\<close>

datatype 'a field = Missing | Invalid | Value 'a

record body =
  b_name :: "string field"
  b_views :: "int field"
  b_likes :: "int field"

text \<open>
  \<^verbatim>\<open>add_argument(name, type=..., help=..., required=True)\<close> and
  \<^verbatim>\<open>add_argument(name, type=..., help=...)\<close>. A rejected argument aborts the request
  with status 400 and the message \<^verbatim>\<open>{name: help}\<close>; the parser stops at the first one.
\<close>

definition required_argument :: "string \<Rightarrow> string \<Rightarrow> 'a field \<Rightarrow> abort + 'a" where
  "required_argument a help f =
     (case f of
        Value x \<Rightarrow> Inr x
      | Invalid \<Rightarrow> Inl (Abort 400 (Field a help))
      | Missing \<Rightarrow> Inl (Abort 400 (Field a help)))"

definition optional_argument :: "string \<Rightarrow> string \<Rightarrow> 'a field \<Rightarrow> abort + 'a option" where
  "optional_argument a help f =
     (case f of
        Value x \<Rightarrow> Inr (Some x)
      | Invalid \<Rightarrow> Inl (Abort 400 (Field a help))
      | Missing \<Rightarrow> Inr None)"

definition help_name_put :: string where
  "help_name_put = ''Nombre del video es requerido''"

definition help_name :: string where
  "help_name = ''Nombre del video''"

definition help_views :: string where
  "help_views = ''N'' @ [CHR 0xC3, CHR 0xBA] @ ''mero de vistas del video''"

definition help_likes :: string where
  "help_likes = ''N'' @ [CHR 0xC3, CHR 0xBA] @ ''mero de likes del video''"

record put_args =
  put_name :: string
  put_views :: int
  put_likes :: int

record update_args =
  upd_name :: "string option"
  upd_views :: "int option"
  upd_likes :: "int option"

text \<open>\<^verbatim>\<open>video_put_args.parse_args()\<close>: \<open>name\<close>, \<open>views\<close>, \<open>likes\<close>, all required.\<close>

definition video_put_args :: "body \<Rightarrow> abort + put_args" where
  "video_put_args b =
     (case required_argument ''name'' help_name_put (b_name b) of
        Inl e \<Rightarrow> Inl e
      | Inr n \<Rightarrow>
          (case required_argument ''views'' help_views (b_views b) of
             Inl e \<Rightarrow> Inl e
           | Inr vw \<Rightarrow>
               (case required_argument ''likes'' help_likes (b_likes b) of
                  Inl e \<Rightarrow> Inl e
                | Inr l \<Rightarrow> Inr \<lparr>put_name = n, put_views = vw, put_likes = l\<rparr>)))"

text \<open>\<^verbatim>\<open>video_update_args.parse_args()\<close>: the same three arguments, none required.\<close>

definition video_update_args :: "body \<Rightarrow> abort + update_args" where
  "video_update_args b =
     (case optional_argument ''name'' help_name (b_name b) of
        Inl e \<Rightarrow> Inl e
      | Inr n \<Rightarrow>
          (case optional_argument ''views'' help_views (b_views b) of
             Inl e \<Rightarrow> Inl e
           | Inr vw \<Rightarrow>
               (case optional_argument ''likes'' help_likes (b_likes b) of
                  Inl e \<Rightarrow> Inl e
                | Inr l \<Rightarrow> Inr \<lparr>upd_name = n, upd_views = vw, upd_likes = l\<rparr>)))"

subsection \<open>State: the table and the two metrics\<close>

text \<open>
  The table is the list of its rows in insertion order. \<^verbatim>\<open>request_counter\<close> and
  \<^verbatim>\<open>response_histogram\<close> are keyed by the pair of labels (method, endpoint); the
  histogram keeps the observed durations.
\<close>

type_synonym labels = "string \<times> string"

record state =
  storage :: "video list"
  request_counter :: "labels \<Rightarrow> nat"
  response_histogram :: "labels \<Rightarrow> real list"

definition inc :: "labels \<Rightarrow> state \<Rightarrow> state" where
  "inc l s = s\<lparr>request_counter := (request_counter s)(l := request_counter s l + 1)\<rparr>"

definition observe :: "labels \<Rightarrow> real \<Rightarrow> state \<Rightarrow> state" where
  "observe l d s = s\<lparr>response_histogram := (response_histogram s)(l := response_histogram s l @ [d])\<rparr>"

text \<open>
  \<^verbatim>\<open>VideoModel.query.filter_by(id=video_id).first()\<close> and
  \<^verbatim>\<open>VideoModel.query.get(video_id)\<close>: the first row with that id, or \<^verbatim>\<open>None\<close>.
\<close>

definition query_get :: "int \<Rightarrow> video list \<Rightarrow> video option" where
  "query_get i rows = find (\<lambda>r. id' r = i) rows"

definition not_found_message :: "int \<Rightarrow> string" where
  "not_found_message i =
     ''No se encontr'' @ [CHR 0xC3, CHR 0xB3] @ '' un video con el ID '' @ py_str i"

definition abort_if_video_doesnt_exist :: "int \<Rightarrow> state \<Rightarrow> abort + video" where
  "abort_if_video_doesnt_exist video_id s =
     (case query_get video_id (storage s) of
        None \<Rightarrow> Inl (Abort 404 (Text (not_found_message video_id)))
      | Some v \<Rightarrow> Inr v)"

subsection \<open>The handlers\<close>

definition Video_get :: "int \<Rightarrow> state \<Rightarrow> response \<times> state" where
  "Video_get video_id s =
     (case abort_if_video_doesnt_exist video_id s of
        Inl e \<Rightarrow> (Inl e, s)
      | Inr v \<Rightarrow> (Inr (resource_fields v, 200), s))"

text \<open>
  In \<open>put\<close>, \<open>patch\<close> and \<open>delete\<close> the counter is incremented first; the body runs inside
  the histogram's timer, which observes the duration \<open>d\<close> when the block is left, also by
  an abort. The endpoint label of the histogram ends in a brace, that of the counter in an
  angle bracket, as in the source.
\<close>

definition conflict_message :: "int \<Rightarrow> string" where
  "conflict_message i = ''Ya existe un video con el ID '' @ py_str i"

definition Video_put :: "int \<Rightarrow> body \<Rightarrow> real \<Rightarrow> state \<Rightarrow> response \<times> state" where
  "Video_put video_id b d s =
     (let s1 = inc (''PUT'', ''/video/<int:video_id>'') s;
          (r, s2) =
            (case video_put_args b of
               Inl e \<Rightarrow> (Inl e, s1)
             | Inr args \<Rightarrow>
                 (case query_get video_id (storage s1) of
                    Some existing_video \<Rightarrow>
                      (Inl (Abort 409 (Text (conflict_message video_id))), s1)
                  | None \<Rightarrow>
                      (let v = \<lparr>id' = video_id, name = put_name args,
                                views = put_views args, likes = put_likes args\<rparr>
                       in (Inr (resource_fields v, 201), s1\<lparr>storage := storage s1 @ [v]\<rparr>))))
      in (r, observe (''PUT'', ''/video/<int:video_id}'') d s2))"

text \<open>The three conditional assignments of \<open>patch\<close>, on one row.\<close>

definition assign :: "update_args \<Rightarrow> video \<Rightarrow> video" where
  "assign args v =
     (let v1 = (case upd_name args of None \<Rightarrow> v | Some n \<Rightarrow> v\<lparr>name := n\<rparr>);
          v2 = (case upd_views args of None \<Rightarrow> v1 | Some vw \<Rightarrow> v1\<lparr>views := vw\<rparr>);
          v3 = (case upd_likes args of None \<Rightarrow> v2 | Some l \<Rightarrow> v2\<lparr>likes := l\<rparr>)
      in v3)"

definition Video_patch :: "int \<Rightarrow> body \<Rightarrow> real \<Rightarrow> state \<Rightarrow> response \<times> state" where
  "Video_patch video_id b d s =
     (let s1 = inc (''PATCH'', ''/video/<int:video_id>'') s;
          (r, s2) =
            (case abort_if_video_doesnt_exist video_id s1 of
               Inl e \<Rightarrow> (Inl e, s1)
             | Inr v \<Rightarrow>
                 (case video_update_args b of
                    Inl e \<Rightarrow> (Inl e, s1)
                  | Inr args \<Rightarrow>
                      (Inr (resource_fields (assign args v), 200),
                       s1\<lparr>storage :=
                            map (\<lambda>r. if id' r = video_id then assign args r else r)
                              (storage s1)\<rparr>)))
      in (r, observe (''PATCH'', ''/video/<int:video_id}'') d s2))"

definition deleted_message :: "int \<Rightarrow> string" where
  "deleted_message i = ''Video con id '' @ py_str i @ '' eliminado''"

definition Video_delete :: "int \<Rightarrow> real \<Rightarrow> state \<Rightarrow> response \<times> state" where
  "Video_delete video_id d s =
     (let s1 = inc (''DELETE'', ''/video/<int:video_id>'') s;
          (r, s2) =
            (case abort_if_video_doesnt_exist video_id s1 of
               Inl e \<Rightarrow> (Inl e, s1)
             | Inr v \<Rightarrow>
                 (Inr ([(''message'', JStr (deleted_message video_id))], 204),
                  s1\<lparr>storage := filter (\<lambda>r. id' r \<noteq> video_id) (storage s1)\<rparr>))
      in (r, observe (''DELETE'', ''/video/<int:video_id}'') d s2))"

subsection \<open>Requests and test states\<close>

text \<open>
  The body of a request that carries well-typed values for some of the three arguments:
  \<open>None\<close> is an argument the request leaves out.
\<close>

definition opt_field :: "'a option \<Rightarrow> 'a field" where
  "opt_field x = (case x of None \<Rightarrow> Missing | Some a \<Rightarrow> Value a)"

definition json_body :: "string option \<Rightarrow> int option \<Rightarrow> int option \<Rightarrow> body" where
  "json_body n vw l = \<lparr>b_name = opt_field n, b_views = opt_field vw, b_likes = opt_field l\<rparr>"

text \<open>The state of a fresh process on an empty table: no row, no label seen yet.\<close>

definition fresh :: state where
  "fresh = \<lparr>storage = [], request_counter = (\<lambda>l. 0), response_histogram = (\<lambda>l. [])\<rparr>"

text \<open>The same with one row in the table.\<close>

definition one_video :: state where
  "one_video = fresh\<lparr>storage := [\<lparr>id' = 1, name = ''a'', views = 0, likes = 0\<rparr>]\<rparr>"

text \<open>The four operations as requests, and the states a sequence of requests leads to.\<close>

datatype request = GET int | PUT int body | PATCH int body | DELETE int

fun handle :: "request \<Rightarrow> real \<Rightarrow> state \<Rightarrow> response \<times> state" where
  "handle (GET i) d s = Video_get i s"
| "handle (PUT i b) d s = Video_put i b d s"
| "handle (PATCH i b) d s = Video_patch i b d s"
| "handle (DELETE i) d s = Video_delete i d s"

inductive reachable :: "state \<Rightarrow> bool" where
  start: "reachable fresh"
| request: "reachable s \<Longrightarrow> reachable (snd (handle r d s))"

section \<open>Properties\<close>

subsection \<open>Lookups in the table\<close>

lemma query_get_None_iff: "query_get i rows = None \<longleftrightarrow> i \<notin> set (map id' rows)"
  by (auto simp: query_get_def find_None_iff)

lemma query_get_SomeD: "query_get i rows = Some v \<Longrightarrow> v \<in> set rows \<and> id' v = i"
  by (auto simp: query_get_def find_Some_iff)

lemma query_get_append:
  "query_get i (xs @ ys) = (case query_get i xs of None \<Rightarrow> query_get i ys | Some v \<Rightarrow> Some v)"
  by (induction xs) (auto simp: query_get_def)

lemma query_get_filter:
  "query_get i (filter (\<lambda>r. id' r \<noteq> k) rows) = (if i = k then None else query_get i rows)"
  by (induction rows) (auto simp: query_get_def)

lemma storage_inc [simp]: "storage (inc l s) = storage s"
  by (simp add: inc_def)

lemma storage_observe [simp]: "storage (observe l d s) = storage s"
  by (simp add: observe_def)

lemma id_assign [simp]: "id' (assign args v) = id' v"
  by (simp add: assign_def Let_def split: option.splits)

lemma video_put_args_values:
  "video_put_args \<lparr>b_name = Value n, b_views = Value vw, b_likes = Value l\<rparr> =
     Inr \<lparr>put_name = n, put_views = vw, put_likes = l\<rparr>"
  by (simp add: video_put_args_def required_argument_def)

subsection \<open>Create on an id that exists\<close>

text \<open>
  C1. If the table holds a row with the id, \<open>put\<close> with a complete body aborts with
  status 409 and a message that ends in the id, and the table is what it was: the row
  keeps its fields and no row is added.
\<close>

theorem put_existing_id_conflict:
  assumes "i \<in> set (map id' (storage s))"
  shows "fst (Video_put i \<lparr>b_name = Value n, b_views = Value vw, b_likes = Value l\<rparr> d s) =
           Inl (Abort 409 (Text (''Ya existe un video con el ID '' @ py_str i))) \<and>
         storage (snd (Video_put i \<lparr>b_name = Value n, b_views = Value vw, b_likes = Value l\<rparr> d s)) =
           storage s"
proof -
  from assms obtain v where "query_get i (storage s) = Some v"
    using query_get_None_iff [of i "storage s"] by (cases "query_get i (storage s)") auto
  then show ?thesis
    by (simp add: Video_put_def Let_def video_put_args_values conflict_message_def)
qed

theorem put_existing_id_conflict_witness:
  "1 \<in> set (map id' (storage one_video)) \<and>
   fst (Video_put 1 \<lparr>b_name = Value ''b'', b_views = Value 7, b_likes = Value 9\<rparr> 0 one_video) =
     Inl (Abort 409 (Text ''Ya existe un video con el ID 1'')) \<and>
   storage (snd (Video_put 1 \<lparr>b_name = Value ''b'', b_views = Value 7, b_likes = Value 9\<rparr> 0 one_video)) =
     [\<lparr>id' = 1, name = ''a'', views = 0, likes = 0\<rparr>]"
  using put_existing_id_conflict [of 1 one_video "''b''" 7 9 0]
  by (simp add: py_str_def str_nat.simps one_video_def fresh_def)

subsection \<open>Partial update\<close>

lemma video_update_args_json_body:
  "video_update_args (json_body n vw l) = Inr \<lparr>upd_name = n, upd_views = vw, upd_likes = l\<rparr>"
  by (simp add: video_update_args_def optional_argument_def json_body_def opt_field_def
      split: option.splits)

lemma assign_fields:
  "assign \<lparr>upd_name = n, upd_views = vw, upd_likes = l\<rparr> v =
     \<lparr>id' = id' v,
      name = (case n of None \<Rightarrow> name v | Some x \<Rightarrow> x),
      views = (case vw of None \<Rightarrow> views v | Some x \<Rightarrow> x),
      likes = (case l of None \<Rightarrow> likes v | Some x \<Rightarrow> x)\<rparr>"
  by (simp add: assign_def Let_def split: option.splits)

lemma query_get_patched:
  "query_get j (map (\<lambda>r. if id' r = i then assign args r else r) rows) =
     (if j = i then map_option (assign args) (query_get i rows) else query_get j rows)"
  by (induction rows) (auto simp: query_get_def)

text \<open>
  C2. For a row \<open>v\<close> found under the id and a request that carries well-typed values for
  some of \<open>name\<close>, \<open>views\<close>, \<open>likes\<close>, \<open>patch\<close> answers 200 with the merged row: each field
  the request carries has the request's value, each field it leaves out has the value of
  \<open>v\<close>, and the id is that of \<open>v\<close>. The merged row is the one the table then holds under
  the id, and the lookups of all other ids are as before.
\<close>

theorem patch_overwrites_present_fields:
  assumes "query_get i (storage s) = Some v"
  shows "fst (Video_patch i (json_body n vw l) d s) =
           Inr ([(''id'', JInt i),
                 (''name'', JStr (case n of None \<Rightarrow> name v | Some x \<Rightarrow> x)),
                 (''views'', JInt (case vw of None \<Rightarrow> views v | Some x \<Rightarrow> x)),
                 (''likes'', JInt (case l of None \<Rightarrow> likes v | Some x \<Rightarrow> x))], 200) \<and>
         query_get i (storage (snd (Video_patch i (json_body n vw l) d s))) =
           Some \<lparr>id' = i,
                 name = (case n of None \<Rightarrow> name v | Some x \<Rightarrow> x),
                 views = (case vw of None \<Rightarrow> views v | Some x \<Rightarrow> x),
                 likes = (case l of None \<Rightarrow> likes v | Some x \<Rightarrow> x)\<rparr> \<and>
         (\<forall>j. j \<noteq> i \<longrightarrow>
            query_get j (storage (snd (Video_patch i (json_body n vw l) d s))) =
              query_get j (storage s))"
proof -
  have idv: "id' v = i"
    using assms query_get_SomeD by blast
  have run: "Video_patch i (json_body n vw l) d s =
      (Inr (resource_fields (assign \<lparr>upd_name = n, upd_views = vw, upd_likes = l\<rparr> v), 200),
       observe (''PATCH'', ''/video/<int:video_id}'') d
         ((inc (''PATCH'', ''/video/<int:video_id>'') s)
            \<lparr>storage := map (\<lambda>r. if id' r = i
                 then assign \<lparr>upd_name = n, upd_views = vw, upd_likes = l\<rparr> r else r)
               (storage s)\<rparr>))"
    using assms
    by (simp add: Video_patch_def Let_def abort_if_video_doesnt_exist_def
        video_update_args_json_body)
  show ?thesis
    using assms idv
    by (simp add: run query_get_patched assign_fields resource_fields_def)
qed

theorem patch_overwrites_present_fields_witness:
  "query_get 1 (storage one_video) = Some \<lparr>id' = 1, name = ''a'', views = 0, likes = 0\<rparr> \<and>
   fst (Video_patch 1 (json_body None (Some 5) None) 0 one_video) =
     Inr ([(''id'', JInt 1), (''name'', JStr ''a''), (''views'', JInt 5), (''likes'', JInt 0)], 200) \<and>
   query_get 1 (storage (snd (Video_patch 1 (json_body None (Some 5) None) 0 one_video))) =
     Some \<lparr>id' = 1, name = ''a'', views = 5, likes = 0\<rparr> \<and>
   (2::int) \<noteq> 1 \<and>
   query_get 2 (storage (snd (Video_patch 1 (json_body None (Some 5) None) 0 one_video))) =
     query_get 2 (storage one_video)"
proof -
  have h: "query_get 1 (storage one_video) = Some \<lparr>id' = 1, name = ''a'', views = 0, likes = 0\<rparr>"
    by (simp add: query_get_def one_video_def fresh_def)
  show ?thesis
    using h patch_overwrites_present_fields [OF h, of None "Some 5" None 0] by simp
qed

subsection \<open>Create, then fetch\<close>

text \<open>
  C3. If no row has the id, \<open>put\<close> answers 201 with the four fields it was given, and a
  \<open>get\<close> of the id in the state that \<open>put\<close> leaves answers 200 with the same four fields.
\<close>

theorem put_then_get_round_trip:
  assumes "i \<notin> set (map id' (storage s))"
  shows "fst (Video_put i \<lparr>b_name = Value n, b_views = Value vw, b_likes = Value l\<rparr> d s) =
           Inr ([(''id'', JInt i), (''name'', JStr n), (''views'', JInt vw), (''likes'', JInt l)], 201) \<and>
         fst (Video_get i
               (snd (Video_put i \<lparr>b_name = Value n, b_views = Value vw, b_likes = Value l\<rparr> d s))) =
           Inr ([(''id'', JInt i), (''name'', JStr n), (''views'', JInt vw), (''likes'', JInt l)], 200)"
proof -
  have none: "query_get i (storage s) = None"
    using assms by (simp add: query_get_None_iff)
  let ?v = "\<lparr>id' = i, name = n, views = vw, likes = l\<rparr>"
  have run: "Video_put i \<lparr>b_name = Value n, b_views = Value vw, b_likes = Value l\<rparr> d s =
      (Inr (resource_fields ?v, 201),
       observe (''PUT'', ''/video/<int:video_id}'') d
         ((inc (''PUT'', ''/video/<int:video_id>'') s)\<lparr>storage := storage s @ [?v]\<rparr>))"
    using none by (simp add: Video_put_def Let_def video_put_args_values)
  have found: "query_get i (storage s @ [?v]) = Some ?v"
    using none by (simp add: query_get_append) (simp add: query_get_def)
  show ?thesis
    using found
    by (simp add: run Video_get_def abort_if_video_doesnt_exist_def resource_fields_def)
qed

theorem put_then_get_round_trip_witness:
  "2 \<notin> set (map id' (storage one_video)) \<and>
   fst (Video_put 2 \<lparr>b_name = Value ''b'', b_views = Value 7, b_likes = Value 9\<rparr> 0 one_video) =
     Inr ([(''id'', JInt 2), (''name'', JStr ''b''), (''views'', JInt 7), (''likes'', JInt 9)], 201) \<and>
   fst (Video_get 2
         (snd (Video_put 2 \<lparr>b_name = Value ''b'', b_views = Value 7, b_likes = Value 9\<rparr> 0 one_video))) =
     Inr ([(''id'', JInt 2), (''name'', JStr ''b''), (''views'', JInt 7), (''likes'', JInt 9)], 200)"
proof -
  have h: "2 \<notin> set (map id' (storage one_video))"
    by (simp add: one_video_def fresh_def)
  show ?thesis
    using h put_then_get_round_trip [OF h, of "''b''" 7 9 0] by simp
qed

subsection \<open>Fetch\<close>

text \<open>
  C4. \<open>get\<close> never changes the state. If no row has the id it aborts with status 404 and a
  message that ends in the id; if the lookup finds the row \<open>v\<close>, it answers 200 with the
  fields \<open>id\<close>, \<open>name\<close>, \<open>views\<close>, \<open>likes\<close> of \<open>v\<close>.
\<close>

theorem get_found_or_not_found:
  "(i \<notin> set (map id' (storage s)) \<longrightarrow>
      Video_get i s =
        (Inl (Abort 404 (Text (''No se encontr'' @ [CHR 0xC3, CHR 0xB3] @
                                 '' un video con el ID '' @ py_str i))), s)) \<and>
   (\<forall>v. query_get i (storage s) = Some v \<longrightarrow>
      Video_get i s =
        (Inr ([(''id'', JInt i), (''name'', JStr (name v)),
               (''views'', JInt (views v)), (''likes'', JInt (likes v))], 200), s))"
proof (intro conjI impI allI)
  assume "i \<notin> set (map id' (storage s))"
  then have "query_get i (storage s) = None"
    by (simp add: query_get_None_iff)
  then show "Video_get i s =
        (Inl (Abort 404 (Text (''No se encontr'' @ [CHR 0xC3, CHR 0xB3] @
                                 '' un video con el ID '' @ py_str i))), s)"
    by (simp add: Video_get_def abort_if_video_doesnt_exist_def not_found_message_def)
next
  fix v
  assume v: "query_get i (storage s) = Some v"
  then have "id' v = i"
    using query_get_SomeD by blast
  with v show "Video_get i s =
        (Inr ([(''id'', JInt i), (''name'', JStr (name v)),
               (''views'', JInt (views v)), (''likes'', JInt (likes v))], 200), s)"
    by (simp add: Video_get_def abort_if_video_doesnt_exist_def resource_fields_def)
qed

theorem get_found_or_not_found_witness:
  "2 \<notin> set (map id' (storage one_video)) \<and>
   Video_get 2 one_video =
     (Inl (Abort 404 (Text (''No se encontr'' @ [CHR 0xC3, CHR 0xB3] @ '' un video con el ID 2''))),
      one_video) \<and>
   query_get 1 (storage one_video) = Some \<lparr>id' = 1, name = ''a'', views = 0, likes = 0\<rparr> \<and>
   Video_get 1 one_video =
     (Inr ([(''id'', JInt 1), (''name'', JStr ''a''), (''views'', JInt 0), (''likes'', JInt 0)], 200),
      one_video)"
proof -
  have h1: "2 \<notin> set (map id' (storage one_video))"
    by (simp add: one_video_def fresh_def)
  have h2: "query_get 1 (storage one_video) = Some \<lparr>id' = 1, name = ''a'', views = 0, likes = 0\<rparr>"
    by (simp add: query_get_def one_video_def fresh_def)
  have a: "Video_get 2 one_video =
     (Inl (Abort 404 (Text (''No se encontr'' @ [CHR 0xC3, CHR 0xB3] @ '' un video con el ID 2''))),
      one_video)"
    using h1 get_found_or_not_found [of 2 one_video] by (simp add: py_str_def str_nat.simps)
  have b: "Video_get 1 one_video =
     (Inr ([(''id'', JInt 1), (''name'', JStr ''a''), (''views'', JInt 0), (''likes'', JInt 0)], 200),
      one_video)"
    using h2 get_found_or_not_found [of 1 one_video] by simp
  show ?thesis
    using h1 h2 a b by blast
qed

subsection \<open>Delete\<close>

text \<open>
  C5. If a row has the id, \<open>delete\<close> answers with the body \<^verbatim>\<open>{message: ...}\<close>, whose text
  contains the id, paired with the status code 204; the table then holds the rows of all
  other ids and no row of this id, and a \<open>get\<close> of the id in the state that \<open>delete\<close> leaves
  aborts with 404. If no row has the id, \<open>delete\<close> aborts with 404 and the table is what it
  was.
\<close>

theorem delete_removes_or_not_found:
  "(i \<in> set (map id' (storage s)) \<longrightarrow>
      fst (Video_delete i d s) =
        Inr ([(''message'', JStr (''Video con id '' @ py_str i @ '' eliminado''))], 204) \<and>
      storage (snd (Video_delete i d s)) = filter (\<lambda>r. id' r \<noteq> i) (storage s) \<and>
      fst (Video_get i (snd (Video_delete i d s))) =
        Inl (Abort 404 (Text (''No se encontr'' @ [CHR 0xC3, CHR 0xB3] @
                                '' un video con el ID '' @ py_str i)))) \<and>
   (i \<notin> set (map id' (storage s)) \<longrightarrow>
      fst (Video_delete i d s) =
        Inl (Abort 404 (Text (''No se encontr'' @ [CHR 0xC3, CHR 0xB3] @
                                '' un video con el ID '' @ py_str i))) \<and>
      storage (snd (Video_delete i d s)) = storage s)"
proof (intro conjI impI)
  assume "i \<in> set (map id' (storage s))"
  then obtain v where v: "query_get i (storage s) = Some v"
    using query_get_None_iff [of i "storage s"] by (cases "query_get i (storage s)") auto
  then have run: "Video_delete i d s =
      (Inr ([(''message'', JStr (deleted_message i))], 204),
       observe (''DELETE'', ''/video/<int:video_id}'') d
         ((inc (''DELETE'', ''/video/<int:video_id>'') s)
            \<lparr>storage := filter (\<lambda>r. id' r \<noteq> i) (storage s)\<rparr>))"
    by (simp add: Video_delete_def Let_def abort_if_video_doesnt_exist_def)
  show "fst (Video_delete i d s) =
        Inr ([(''message'', JStr (''Video con id '' @ py_str i @ '' eliminado''))], 204)"
    by (simp add: run deleted_message_def)
  show "storage (snd (Video_delete i d s)) = filter (\<lambda>r. id' r \<noteq> i) (storage s)"
    by (simp add: run)
  show "fst (Video_get i (snd (Video_delete i d s))) =
        Inl (Abort 404 (Text (''No se encontr'' @ [CHR 0xC3, CHR 0xB3] @
                                '' un video con el ID '' @ py_str i)))"
    by (simp add: run Video_get_def abort_if_video_doesnt_exist_def query_get_filter
        not_found_message_def)
next
  assume "i \<notin> set (map id' (storage s))"
  then have none: "query_get i (storage s) = None"
    by (simp add: query_get_None_iff)
  then have run: "Video_delete i d s =
      (Inl (Abort 404 (Text (not_found_message i))),
       observe (''DELETE'', ''/video/<int:video_id}'') d
         (inc (''DELETE'', ''/video/<int:video_id>'') s))"
    by (simp add: Video_delete_def Let_def abort_if_video_doesnt_exist_def)
  show "fst (Video_delete i d s) =
        Inl (Abort 404 (Text (''No se encontr'' @ [CHR 0xC3, CHR 0xB3] @
                                '' un video con el ID '' @ py_str i)))"
    by (simp add: run not_found_message_def)
  show "storage (snd (Video_delete i d s)) = storage s"
    by (simp add: run)
qed

theorem delete_removes_or_not_found_witness:
  "1 \<in> set (map id' (storage one_video)) \<and>
   fst (Video_delete 1 0 one_video) = Inr ([(''message'', JStr ''Video con id 1 eliminado'')], 204) \<and>
   storage (snd (Video_delete 1 0 one_video)) = [] \<and>
   fst (Video_get 1 (snd (Video_delete 1 0 one_video))) =
     Inl (Abort 404 (Text (''No se encontr'' @ [CHR 0xC3, CHR 0xB3] @ '' un video con el ID 1''))) \<and>
   2 \<notin> set (map id' (storage one_video)) \<and>
   fst (Video_delete 2 0 one_video) =
     Inl (Abort 404 (Text (''No se encontr'' @ [CHR 0xC3, CHR 0xB3] @ '' un video con el ID 2''))) \<and>
   storage (snd (Video_delete 2 0 one_video)) = [\<lparr>id' = 1, name = ''a'', views = 0, likes = 0\<rparr>]"
proof -
  have st: "storage one_video = [\<lparr>id' = 1, name = ''a'', views = 0, likes = 0\<rparr>]"
    by (simp add: one_video_def fresh_def)
  have h1: "1 \<in> set (map id' (storage one_video))" and h2: "2 \<notin> set (map id' (storage one_video))"
    by (simp_all add: st)
  have a: "fst (Video_delete 1 0 one_video) = Inr ([(''message'', JStr ''Video con id 1 eliminado'')], 204) \<and>
   storage (snd (Video_delete 1 0 one_video)) = [] \<and>
   fst (Video_get 1 (snd (Video_delete 1 0 one_video))) =
     Inl (Abort 404 (Text (''No se encontr'' @ [CHR 0xC3, CHR 0xB3] @ '' un video con el ID 1'')))"
    using h1 delete_removes_or_not_found [of 1 one_video 0]
    by (simp add: st py_str_def str_nat.simps)
  have b: "fst (Video_delete 2 0 one_video) =
     Inl (Abort 404 (Text (''No se encontr'' @ [CHR 0xC3, CHR 0xB3] @ '' un video con el ID 2''))) \<and>
   storage (snd (Video_delete 2 0 one_video)) = [\<lparr>id' = 1, name = ''a'', views = 0, likes = 0\<rparr>]"
    using h2 delete_removes_or_not_found [of 2 one_video 0]
    by (simp add: st py_str_def str_nat.simps)
  show ?thesis
    using h1 h2 a b by blast
qed

subsection \<open>Validation of the body of a create\<close>

text \<open>
  For any body: if one of the three arguments is missing or has a value its type does not
  convert, \<open>put\<close> aborts with status 400 and the message for the first such argument in
  the order \<open>name\<close>, \<open>views\<close>, \<open>likes\<close>. Nothing but the two metrics changes.
\<close>

lemma put_rejects_first_bad_field:
  assumes "b_name b \<in> {Missing, Invalid} \<or> b_views b \<in> {Missing, Invalid} \<or>
           b_likes b \<in> {Missing, Invalid}"
  shows "Video_put i b d s =
           (Inl (Abort 400
              (if b_name b \<in> {Missing, Invalid} then Field ''name'' help_name_put
               else if b_views b \<in> {Missing, Invalid} then Field ''views'' help_views
               else Field ''likes'' help_likes)),
            observe (''PUT'', ''/video/<int:video_id}'') d
              (inc (''PUT'', ''/video/<int:video_id>'') s))"
  using assms
  by (cases "b_name b"; cases "b_views b"; cases "b_likes b")
     (simp_all add: Video_put_def Let_def video_put_args_def required_argument_def)

lemma json_body_name_bad: "b_name (json_body n vw l) \<in> {Missing, Invalid} \<longleftrightarrow> n = None"
  by (cases n) (simp_all add: json_body_def opt_field_def)

lemma json_body_views_bad: "b_views (json_body n vw l) \<in> {Missing, Invalid} \<longleftrightarrow> vw = None"
  by (cases vw) (simp_all add: json_body_def opt_field_def)

lemma json_body_likes_bad: "b_likes (json_body n vw l) \<in> {Missing, Invalid} \<longleftrightarrow> l = None"
  by (cases l) (simp_all add: json_body_def opt_field_def)

text \<open>
  A request that carries well-typed values for some of the three arguments and leaves at
  least one of them out is rejected with the message of the first argument left out.
\<close>

lemma put_well_typed_body_names_first_missing:
  assumes "n = None \<or> vw = None \<or> l = None"
  shows "fst (Video_put i (json_body n vw l) d s) =
           Inl (Abort 400
             (if n = None then Field ''name'' help_name_put
              else if vw = None then Field ''views'' help_views
              else Field ''likes'' help_likes)) \<and>
         storage (snd (Video_put i (json_body n vw l) d s)) = storage s"
proof -
  have bad: "b_name (json_body n vw l) \<in> {Missing, Invalid} \<or>
             b_views (json_body n vw l) \<in> {Missing, Invalid} \<or>
             b_likes (json_body n vw l) \<in> {Missing, Invalid}"
    using assms by (simp only: json_body_name_bad json_body_views_bad json_body_likes_bad)
  show ?thesis
    unfolding put_rejects_first_bad_field [OF bad]
    by (simp only: json_body_name_bad json_body_views_bad json_body_likes_bad
        fst_conv snd_conv storage_inc storage_observe simp_thms)
qed

text \<open>
  C6, as the claim states it, fails: the message need not name a missing argument. The
  request below carries a name, an ill-typed \<open>views\<close> and no \<open>likes\<close>. It is missing the
  required \<open>likes\<close>, and \<open>put\<close> aborts with status 400 and the message of \<open>views\<close>, which the
  request does carry: the parser stops at \<open>views\<close> and never comes to \<open>likes\<close>.
\<close>

theorem put_missing_field_message_counterexample:
  "b_likes \<lparr>b_name = Value ''a'', b_views = Invalid, b_likes = Missing\<rparr> = Missing \<and>
   b_views \<lparr>b_name = Value ''a'', b_views = Invalid, b_likes = Missing\<rparr> \<noteq> Missing \<and>
   fst (Video_put 2 \<lparr>b_name = Value ''a'', b_views = Invalid, b_likes = Missing\<rparr> 0 one_video) =
     Inl (Abort 400 (Field ''views'' help_views)) \<and>
   fst (Video_put 2 \<lparr>b_name = Value ''a'', b_views = Invalid, b_likes = Missing\<rparr> 0 one_video) \<noteq>
     Inl (Abort 400 (Field ''likes'' help_likes))"
  by (simp add: Video_put_def Let_def video_put_args_def required_argument_def)

text \<open>
  C6, amended. For every create request that is missing at least one of \<open>name\<close>, \<open>views\<close>,
  \<open>likes\<close>, whatever it carries for the others, \<open>put\<close> aborts with status 400 and the
  table is what it was: no row is inserted. The message is \<^verbatim>\<open>{argument: help}\<close> for the
  first argument, in the order \<open>name\<close>, \<open>views\<close>, \<open>likes\<close>, that is missing or ill-typed;
  it names a missing argument whenever no ill-typed argument stands before the first
  missing one.
\<close>

theorem put_missing_field_rejected:
  assumes "b_name b = Missing \<or> b_views b = Missing \<or> b_likes b = Missing"
  shows "fst (Video_put i b d s) =
           Inl (Abort 400
             (if b_name b \<in> {Missing, Invalid} then Field ''name'' help_name_put
              else if b_views b \<in> {Missing, Invalid} then Field ''views'' help_views
              else Field ''likes'' help_likes)) \<and>
         storage (snd (Video_put i b d s)) = storage s \<and>
         (b_name b = Missing \<longrightarrow>
            fst (Video_put i b d s) = Inl (Abort 400 (Field ''name'' help_name_put))) \<and>
         (b_name b \<notin> {Missing, Invalid} \<and> b_views b = Missing \<longrightarrow>
            fst (Video_put i b d s) = Inl (Abort 400 (Field ''views'' help_views))) \<and>
         (b_name b \<notin> {Missing, Invalid} \<and> b_views b \<notin> {Missing, Invalid} \<and>
          b_likes b = Missing \<longrightarrow>
            fst (Video_put i b d s) = Inl (Abort 400 (Field ''likes'' help_likes)))"
proof -
  have bad: "b_name b \<in> {Missing, Invalid} \<or> b_views b \<in> {Missing, Invalid} \<or>
             b_likes b \<in> {Missing, Invalid}"
    using assms by auto
  have run: "fst (Video_put i b d s) =
           Inl (Abort 400
             (if b_name b \<in> {Missing, Invalid} then Field ''name'' help_name_put
              else if b_views b \<in> {Missing, Invalid} then Field ''views'' help_views
              else Field ''likes'' help_likes))"
    by (simp only: put_rejects_first_bad_field [OF bad] fst_conv)
  have kept: "storage (snd (Video_put i b d s)) = storage s"
    by (simp only: put_rejects_first_bad_field [OF bad] snd_conv storage_inc storage_observe)
  have n: "b_name b = Missing \<longrightarrow>
            fst (Video_put i b d s) = Inl (Abort 400 (Field ''name'' help_name_put))"
    by (simp add: run)
  have v: "b_name b \<notin> {Missing, Invalid} \<and> b_views b = Missing \<longrightarrow>
            fst (Video_put i b d s) = Inl (Abort 400 (Field ''views'' help_views))"
    by (simp add: run)
  have l: "b_name b \<notin> {Missing, Invalid} \<and> b_views b \<notin> {Missing, Invalid} \<and>
          b_likes b = Missing \<longrightarrow>
            fst (Video_put i b d s) = Inl (Abort 400 (Field ''likes'' help_likes))"
    by (simp add: run)
  show ?thesis
    using run kept n v l by (intro conjI)
qed

theorem put_missing_field_rejected_witness:
  "(b_name \<lparr>b_name = Value ''a'', b_views = Missing, b_likes = Invalid\<rparr> = Missing \<or>
    b_views \<lparr>b_name = Value ''a'', b_views = Missing, b_likes = Invalid\<rparr> = Missing \<or>
    b_likes \<lparr>b_name = Value ''a'', b_views = Missing, b_likes = Invalid\<rparr> = Missing) \<and>
   b_name \<lparr>b_name = Value ''a'', b_views = Missing, b_likes = Invalid\<rparr> \<notin> {Missing, Invalid} \<and>
   fst (Video_put 2 \<lparr>b_name = Value ''a'', b_views = Missing, b_likes = Invalid\<rparr> 0 one_video) =
     Inl (Abort 400 (Field ''views'' help_views)) \<and>
   storage (snd (Video_put 2 \<lparr>b_name = Value ''a'', b_views = Missing, b_likes = Invalid\<rparr> 0 one_video)) =
     [\<lparr>id' = 1, name = ''a'', views = 0, likes = 0\<rparr>]"
proof -
  have h: "b_name \<lparr>b_name = Value ''a'', b_views = Missing, b_likes = Invalid\<rparr> = Missing \<or>
    b_views \<lparr>b_name = Value ''a'', b_views = Missing, b_likes = Invalid\<rparr> = Missing \<or>
    b_likes \<lparr>b_name = Value ''a'', b_views = Missing, b_likes = Invalid\<rparr> = Missing"
    by simp
  have st: "storage one_video = [\<lparr>id' = 1, name = ''a'', views = 0, likes = 0\<rparr>]"
    by (simp add: one_video_def fresh_def)
  show ?thesis
    using h put_missing_field_rejected
      [OF h, of 2 0 one_video]
    by (simp add: st)
qed

text \<open>
  C9. The body is parsed before the table is consulted: for a body with a missing required
  argument, whatever the other arguments are and whether or not a row has the id, \<open>put\<close>
  aborts with status 400 and an argument message, not with the 409 of an existing id, and
  the table is what it was.
\<close>

theorem put_validates_before_conflict_check:
  assumes "b_name b = Missing \<or> b_views b = Missing \<or> b_likes b = Missing"
  shows "(\<exists>f h. fst (Video_put i b d s) = Inl (Abort 400 (Field f h))) \<and>
         fst (Video_put i b d s) \<noteq> Inl (Abort 409 (Text (''Ya existe un video con el ID '' @ py_str i))) \<and>
         storage (snd (Video_put i b d s)) = storage s"
proof -
  have bad: "b_name b \<in> {Missing, Invalid} \<or> b_views b \<in> {Missing, Invalid} \<or>
             b_likes b \<in> {Missing, Invalid}"
    using assms by auto
  show ?thesis
    by (simp add: put_rejects_first_bad_field [OF bad])
qed

theorem put_validates_before_conflict_check_witness:
  "(b_name (json_body None (Some 7) (Some 9)) = Missing \<or>
    b_views (json_body None (Some 7) (Some 9)) = Missing \<or>
    b_likes (json_body None (Some 7) (Some 9)) = Missing) \<and>
   1 \<in> set (map id' (storage one_video)) \<and>
   (\<exists>f h. fst (Video_put 1 (json_body None (Some 7) (Some 9)) 0 one_video) =
      Inl (Abort 400 (Field f h))) \<and>
   fst (Video_put 1 (json_body None (Some 7) (Some 9)) 0 one_video) \<noteq>
      Inl (Abort 409 (Text ''Ya existe un video con el ID 1'')) \<and>
   storage (snd (Video_put 1 (json_body None (Some 7) (Some 9)) 0 one_video)) =
     [\<lparr>id' = 1, name = ''a'', views = 0, likes = 0\<rparr>]"
proof -
  have h: "b_name (json_body None (Some 7) (Some 9)) = Missing \<or>
    b_views (json_body None (Some 7) (Some 9)) = Missing \<or>
    b_likes (json_body None (Some 7) (Some 9)) = Missing"
    by (simp add: json_body_def opt_field_def)
  have st: "storage one_video = [\<lparr>id' = 1, name = ''a'', views = 0, likes = 0\<rparr>]"
    by (simp add: one_video_def fresh_def)
  show ?thesis
    using h put_validates_before_conflict_check [OF h, of 1 0 one_video]
    by (simp add: st py_str_def str_nat.simps)
qed

subsection \<open>Partial update of an id that does not exist\<close>

text \<open>
  C10. The row is looked up before the body is parsed: if no row has the id, \<open>patch\<close> aborts
  with status 404 and the message that ends in the id for every body, also one whose
  arguments are all ill-typed, and the table is what it was.
\<close>

theorem patch_checks_existence_before_parsing:
  assumes "i \<notin> set (map id' (storage s))"
  shows "fst (Video_patch i b d s) =
           Inl (Abort 404 (Text (''No se encontr'' @ [CHR 0xC3, CHR 0xB3] @
                                   '' un video con el ID '' @ py_str i))) \<and>
         storage (snd (Video_patch i b d s)) = storage s"
proof -
  have "query_get i (storage s) = None"
    using assms by (simp add: query_get_None_iff)
  then show ?thesis
    by (simp add: Video_patch_def Let_def abort_if_video_doesnt_exist_def not_found_message_def)
qed

theorem patch_checks_existence_before_parsing_witness:
  "2 \<notin> set (map id' (storage one_video)) \<and>
   fst (Video_patch 2 \<lparr>b_name = Invalid, b_views = Invalid, b_likes = Invalid\<rparr> 0 one_video) =
     Inl (Abort 404 (Text (''No se encontr'' @ [CHR 0xC3, CHR 0xB3] @ '' un video con el ID 2''))) \<and>
   storage (snd (Video_patch 2 \<lparr>b_name = Invalid, b_views = Invalid, b_likes = Invalid\<rparr> 0 one_video)) =
     [\<lparr>id' = 1, name = ''a'', views = 0, likes = 0\<rparr>]"
proof -
  have st: "storage one_video = [\<lparr>id' = 1, name = ''a'', views = 0, likes = 0\<rparr>]"
    by (simp add: one_video_def fresh_def)
  have h: "2 \<notin> set (map id' (storage one_video))"
    by (simp add: st)
  show ?thesis
    using h patch_checks_existence_before_parsing
      [OF h, of "\<lparr>b_name = Invalid, b_views = Invalid, b_likes = Invalid\<rparr>" 0]
    by (simp add: st py_str_def str_nat.simps)
qed

subsection \<open>Metrics\<close>

lemma put_metrics:
  "request_counter (snd (Video_put i b d s)) (''PUT'', ''/video/<int:video_id>'') =
     request_counter s (''PUT'', ''/video/<int:video_id>'') + 1 \<and>
   response_histogram (snd (Video_put i b d s)) (''PUT'', ''/video/<int:video_id>'') =
     response_histogram s (''PUT'', ''/video/<int:video_id>'') \<and>
   response_histogram (snd (Video_put i b d s)) (''PUT'', ''/video/<int:video_id}'') =
     response_histogram s (''PUT'', ''/video/<int:video_id}'') @ [d]"
  by (simp add: Video_put_def Let_def observe_def inc_def
      split: sum.splits option.splits prod.splits)

lemma patch_metrics:
  "request_counter (snd (Video_patch i b d s)) (''PATCH'', ''/video/<int:video_id>'') =
     request_counter s (''PATCH'', ''/video/<int:video_id>'') + 1 \<and>
   response_histogram (snd (Video_patch i b d s)) (''PATCH'', ''/video/<int:video_id>'') =
     response_histogram s (''PATCH'', ''/video/<int:video_id>'') \<and>
   response_histogram (snd (Video_patch i b d s)) (''PATCH'', ''/video/<int:video_id}'') =
     response_histogram s (''PATCH'', ''/video/<int:video_id}'') @ [d]"
  by (simp add: Video_patch_def Let_def observe_def inc_def
      split: sum.splits option.splits prod.splits)

lemma delete_metrics:
  "request_counter (snd (Video_delete i d s)) (''DELETE'', ''/video/<int:video_id>'') =
     request_counter s (''DELETE'', ''/video/<int:video_id>'') + 1 \<and>
   response_histogram (snd (Video_delete i d s)) (''DELETE'', ''/video/<int:video_id>'') =
     response_histogram s (''DELETE'', ''/video/<int:video_id>'') \<and>
   response_histogram (snd (Video_delete i d s)) (''DELETE'', ''/video/<int:video_id}'') =
     response_histogram s (''DELETE'', ''/video/<int:video_id}'') @ [d]"
  by (simp add: Video_delete_def Let_def observe_def inc_def
      split: sum.splits option.splits prod.splits)

text \<open>
  C7. What the handlers do to the two metrics. \<open>get\<close> returns the state it was given:
  it increments no counter and records no duration. \<open>put\<close>, \<open>patch\<close> and \<open>delete\<close>
  increment the counter under the method and the endpoint \<^verbatim>\<open>/video/<int:video_id>\<close>, and
  record the duration under the method and the endpoint \<^verbatim>\<open>/video/<int:video_id}\<close>: the
  histogram entry under the key of the counter stays as it was.
\<close>

theorem get_skips_metrics_and_histogram_key_differs:
  "snd (Video_get i s) = s \<and>
   (request_counter (snd (Video_put i b d s)) (''PUT'', ''/video/<int:video_id>'') =
      request_counter s (''PUT'', ''/video/<int:video_id>'') + 1 \<and>
    response_histogram (snd (Video_put i b d s)) (''PUT'', ''/video/<int:video_id>'') =
      response_histogram s (''PUT'', ''/video/<int:video_id>'') \<and>
    response_histogram (snd (Video_put i b d s)) (''PUT'', ''/video/<int:video_id}'') =
      response_histogram s (''PUT'', ''/video/<int:video_id}'') @ [d]) \<and>
   (request_counter (snd (Video_patch i b d s)) (''PATCH'', ''/video/<int:video_id>'') =
      request_counter s (''PATCH'', ''/video/<int:video_id>'') + 1 \<and>
    response_histogram (snd (Video_patch i b d s)) (''PATCH'', ''/video/<int:video_id>'') =
      response_histogram s (''PATCH'', ''/video/<int:video_id>'') \<and>
    response_histogram (snd (Video_patch i b d s)) (''PATCH'', ''/video/<int:video_id}'') =
      response_histogram s (''PATCH'', ''/video/<int:video_id}'') @ [d]) \<and>
   (request_counter (snd (Video_delete i d s)) (''DELETE'', ''/video/<int:video_id>'') =
      request_counter s (''DELETE'', ''/video/<int:video_id>'') + 1 \<and>
    response_histogram (snd (Video_delete i d s)) (''DELETE'', ''/video/<int:video_id>'') =
      response_histogram s (''DELETE'', ''/video/<int:video_id>'') \<and>
    response_histogram (snd (Video_delete i d s)) (''DELETE'', ''/video/<int:video_id}'') =
      response_histogram s (''DELETE'', ''/video/<int:video_id}'') @ [d])"
proof -
  have "snd (Video_get i s) = s"
    by (simp add: Video_get_def split: sum.splits)
  then show ?thesis
    using put_metrics [of i b d s] patch_metrics [of i b d s] delete_metrics [of i d s]
    by (intro conjI) (erule conjE | assumption)+
qed

subsection \<open>The id column\<close>

text \<open>
  What each handler does to the column of ids, read in the order of the rows. The three
  assignments of \<open>patch\<close> are to \<open>name\<close>, \<open>views\<close> and \<open>likes\<close> (lemma \<open>id_assign\<close>).
\<close>

lemma ids_after_get: "storage (snd (Video_get i s)) = storage s"
  by (simp add: Video_get_def split: sum.splits)

lemma ids_after_put:
  "map id' (storage (snd (Video_put i b d s))) =
     (if isl (fst (Video_put i b d s)) then map id' (storage s) else map id' (storage s) @ [i])"
  by (simp add: Video_put_def Let_def split: sum.splits option.splits)

lemma ids_after_patch: "map id' (storage (snd (Video_patch i b d s))) = map id' (storage s)"
  by (simp add: Video_patch_def Let_def o_def if_distrib [of id'] split: sum.splits)

lemma query_get_None_image: "query_get i rows = None \<longleftrightarrow> i \<notin> id' ` set rows"
  using query_get_None_iff [of i rows] by simp

lemma ids_after_delete:
  "map id' (storage (snd (Video_delete i d s))) = filter (\<lambda>j. j \<noteq> i) (map id' (storage s))"
proof (cases "query_get i (storage s)")
  case None
  then have "\<forall>j\<in>set (map id' (storage s)). j \<noteq> i"
    by (auto simp: query_get_None_image)
  then have "filter (\<lambda>j. j \<noteq> i) (map id' (storage s)) = map id' (storage s)"
    by (simp only: filter_True)
  with None show ?thesis
    by (simp add: Video_delete_def Let_def abort_if_video_doesnt_exist_def)
next
  case (Some v)
  then show ?thesis
    by (simp add: Video_delete_def Let_def abort_if_video_doesnt_exist_def filter_map o_def)
qed

lemma put_success_fresh_id:
  "\<not> isl (fst (Video_put i b d s)) \<Longrightarrow> i \<notin> set (map id' (storage s))"
  by (simp add: Video_put_def Let_def query_get_None_image split: sum.splits option.splits)

lemma ids_after_handle:
  "map id' (storage (snd (handle r d s))) =
     (case r of
        GET i \<Rightarrow> map id' (storage s)
      | PUT i b \<Rightarrow>
          (if isl (fst (handle r d s)) then map id' (storage s) else map id' (storage s) @ [i])
      | PATCH i b \<Rightarrow> map id' (storage s)
      | DELETE i \<Rightarrow> filter (\<lambda>j. j \<noteq> i) (map id' (storage s)))"
  by (cases r) (simp_all add: ids_after_get ids_after_put ids_after_patch ids_after_delete)

lemma handle_keeps_ids_distinct:
  assumes "distinct (map id' (storage s))"
  shows "distinct (map id' (storage (snd (handle r d s))))"
proof (cases r)
  case (GET i)
  then show ?thesis using assms by (simp add: ids_after_get)
next
  case (PUT i b)
  then show ?thesis
    using assms put_success_fresh_id [of i b d s] by (simp add: ids_after_put)
next
  case (PATCH i b)
  then show ?thesis using assms by (simp add: ids_after_patch)
next
  case (DELETE i)
  then show ?thesis using assms by (simp add: ids_after_delete)
qed

lemma reachable_ids_distinct: "reachable s \<Longrightarrow> distinct (map id' (storage s))"
proof (induction rule: reachable.induct)
  case start
  show ?case by (simp add: fresh_def)
next
  case (request s r d)
  then show ?case by (simp add: handle_keeps_ids_distinct)
qed

lemma distinct_ids_lookup:
  assumes "distinct (map id' rows)"
  shows "query_get i rows = Some v \<longleftrightarrow> v \<in> set rows \<and> id' v = i"
  using assms
proof (induction rows)
  case Nil
  show ?case by (simp add: query_get_def)
next
  case (Cons r rows)
  then have IH: "query_get i rows = Some v \<longleftrightarrow> v \<in> set rows \<and> id' v = i"
    by simp
  from Cons.prems have fresh: "id' r \<notin> id' ` set rows"
    by simp
  show ?case
  proof (cases "id' r = i")
    case True
    with fresh have "\<forall>w\<in>set rows. id' w \<noteq> i" by (metis image_eqI)
    with True show ?thesis by (auto simp: query_get_def)
  next
    case False
    have "query_get i (r # rows) = query_get i rows"
      using False by (simp add: query_get_def)
    with IH False show ?thesis by auto
  qed
qed

text \<open>
  C8. In every state that requests lead to from the empty table, no two rows share an id
  and a row is the one found under its own id. No request changes the id of a row that is
  there: \<open>get\<close> and \<open>patch\<close> leave the column of ids as it is, \<open>put\<close> leaves it or appends
  the id it creates, \<open>delete\<close> removes the rows of its id and keeps the others in place.
\<close>

theorem id_immutable:
  assumes "reachable s"
  shows "distinct (map id' (storage s)) \<and>
         (\<forall>i v. v \<in> set (storage s) \<and> id' v = i \<longleftrightarrow> query_get i (storage s) = Some v) \<and>
         (\<forall>r d. map id' (storage (snd (handle r d s))) =
            (case r of
               GET i \<Rightarrow> map id' (storage s)
             | PUT i b \<Rightarrow>
                 (if isl (fst (handle r d s)) then map id' (storage s)
                  else map id' (storage s) @ [i])
             | PATCH i b \<Rightarrow> map id' (storage s)
             | DELETE i \<Rightarrow> filter (\<lambda>j. j \<noteq> i) (map id' (storage s))))"
proof -
  have d: "distinct (map id' (storage s))"
    using assms by (rule reachable_ids_distinct)
  show ?thesis
    using d distinct_ids_lookup [OF d] ids_after_handle by blast
qed

theorem id_immutable_witness:
  "reachable (snd (handle (PUT 1 (json_body (Some ''a'') (Some 0) (Some 0))) 0 fresh)) \<and>
   distinct (map id' (storage (snd (handle (PUT 1 (json_body (Some ''a'') (Some 0) (Some 0))) 0 fresh)))) \<and>
   map id' (storage (snd (handle (PATCH 1 (json_body (Some ''z'') None (Some 4))) 0
     (snd (handle (PUT 1 (json_body (Some ''a'') (Some 0) (Some 0))) 0 fresh))))) = [1]"
proof -
  let ?s = "snd (handle (PUT 1 (json_body (Some ''a'') (Some 0) (Some 0))) 0 fresh)"
  have r: "reachable ?s"
    by (rule reachable.request [OF reachable.start])
  have ids: "map id' (storage ?s) = [1]"
    by (simp add: Video_put_def Let_def video_put_args_def required_argument_def json_body_def
        opt_field_def query_get_def fresh_def)
  from id_immutable [OF r]
  have "distinct (map id' (storage ?s))"
    and "map id' (storage (snd (handle (PATCH 1 (json_body (Some ''z'') None (Some 4))) 0 ?s))) =
      (case PATCH 1 (json_body (Some ''z'') None (Some 4)) of
               GET i \<Rightarrow> map id' (storage ?s)
             | PUT i b \<Rightarrow>
                 (if isl (fst (handle (PATCH 1 (json_body (Some ''z'') None (Some 4))) 0 ?s))
                  then map id' (storage ?s)
                  else map id' (storage ?s) @ [i])
             | PATCH i b \<Rightarrow> map id' (storage ?s)
             | DELETE i \<Rightarrow> filter (\<lambda>j. j \<noteq> i) (map id' (storage ?s)))"
    by blast+
  then show ?thesis
    using r ids by simp
qed

end
